theory Spec2Isabelle
  imports Main "HOL-Library.Sublist"
begin

section \<open>Python values and library functions used by \<open>formatting.py\<close>\<close>

text \<open>
  The module \<open>marvin/beta/assistants/formatting.py\<close> turns the messages and run steps
  of an assistant run into \<open>rich\<close> panels. Python strings are modelled as \<open>string\<close>.
  Exceptions are values: a fallible computation has type \<open>exn + 'a\<close>, with \<open>Inl\<close> the
  raised exception. Every exception here is an instance of \<open>Exception\<close>. Resource
  exhaustion of the interpreter (\<open>MemoryError\<close>, \<open>RecursionError\<close>) is outside the model,
  as for every recursive function here.
\<close>

datatype exn =
    JSONDecodeError
  | ValueError string
  | KeyError string
  | FileExistsError
  | APIError string
  | OtherError string

subsection \<open>String methods\<close>

text \<open>
  \<open>str.expandtabs()\<close> with the default tab size 8: a tab becomes the spaces up to the
  next multiple of 8 of the current column, a line feed or carriage return resets the
  column, any other character advances it by one.
\<close>

fun expandtabs_from :: "nat \<Rightarrow> string \<Rightarrow> string" where
  "expandtabs_from col [] = []"
| "expandtabs_from col (c # cs) =
     (if c = CHR 0x09 then replicate (8 - col mod 8) CHR '' '' @ expandtabs_from (col + (8 - col mod 8)) cs
      else if c = CHR ''\<newline>'' \<or> c = CHR 0x0D then c # expandtabs_from 0 cs
      else c # expandtabs_from (col + 1) cs)"

definition expandtabs :: "string \<Rightarrow> string" where
  "expandtabs s = expandtabs_from 0 s"

text \<open>\<open>s.split('\n')\<close>: never empty, one more piece than there are line feeds.\<close>

fun split_nl :: "string \<Rightarrow> string list" where
  "split_nl [] = [[]]"
| "split_nl (c # cs) =
     (if c = CHR ''\<newline>'' then [] # split_nl cs
      else (case split_nl cs of [] \<Rightarrow> [[c]] | l # ls \<Rightarrow> (c # l) # ls))"

text \<open>\<open>'\n'.join(lines)\<close>.\<close>

fun join_nl :: "string list \<Rightarrow> string" where
  "join_nl [] = []"
| "join_nl [l] = l"
| "join_nl (l # ls) = l @ CHR ''\<newline>'' # join_nl ls"

text \<open>
  The characters \<open>str.isspace\<close> accepts among the first 128: tab, line feed, vertical
  tab, form feed, carriage return, the four separators \<open>0x1C\<close> to \<open>0x1F\<close>, and space.
\<close>

definition isspace :: "char \<Rightarrow> bool" where
  "isspace c \<longleftrightarrow> c \<in> set [CHR 0x09, CHR ''\<newline>'', CHR 0x0B, CHR 0x0C, CHR 0x0D,
                          CHR 0x1C, CHR 0x1D, CHR 0x1E, CHR 0x1F, CHR '' '']"

text \<open>\<open>s.lstrip()\<close> and \<open>s.lstrip(chars)\<close>.\<close>

definition lstrip :: "string \<Rightarrow> string" where
  "lstrip s = dropWhile isspace s"

definition lstrip_chars :: "string \<Rightarrow> string \<Rightarrow> string" where
  "lstrip_chars chars s = dropWhile (\<lambda>c. c \<in> set chars) s"

subsection \<open>\<open>inspect.cleandoc\<close>\<close>

text \<open>
  The loop that finds the margin: the least indentation of the non-blank lines after the
  first. \<open>None\<close> is the initial \<open>sys.maxsize\<close>, which no line reaches.
\<close>

fun find_margin :: "nat option \<Rightarrow> string list \<Rightarrow> nat option" where
  "find_margin margin [] = margin"
| "find_margin margin (line # lines) =
     (let content = length (lstrip line) in
      if content \<noteq> 0
      then (let indent = length line - content in
            find_margin (case margin of None \<Rightarrow> Some indent | Some m \<Rightarrow> Some (min m indent)) lines)
      else find_margin margin lines)"

text \<open>The two \<open>while\<close> loops that pop blank lines from the end and from the front.\<close>

definition pop_trailing_blank :: "string list \<Rightarrow> string list" where
  "pop_trailing_blank lines = rev (dropWhile (\<lambda>l. l = []) (rev lines))"

definition pop_leading_blank :: "string list \<Rightarrow> string list" where
  "pop_leading_blank lines = dropWhile (\<lambda>l. l = []) lines"

definition cleandoc :: "string \<Rightarrow> string" where
  "cleandoc doc =
     (let lines = split_nl (expandtabs doc);
          margin = find_margin None (tl lines);
          lines1 = (case lines of [] \<Rightarrow> [] | l # ls \<Rightarrow> lstrip l # ls);
          lines2 = (case margin of
                      None \<Rightarrow> lines1
                    | Some m \<Rightarrow> (case lines1 of [] \<Rightarrow> [] | l # ls \<Rightarrow> l # map (drop m) ls))
      in join_nl (pop_leading_blank (pop_trailing_blank lines2)))"

subsection \<open>\<open>str.format\<close> with keyword arguments\<close>

text \<open>
  Only what the templates of this module use: literal text, the escapes \<open>{{\<close> and
  \<open>}}\<close>, and plain named fields \<open>{name}\<close>, replaced by the string of the keyword
  argument of that name. A missing keyword raises \<open>KeyError\<close>, an unmatched brace
  \<open>ValueError\<close>.
\<close>

fun lookup_kw :: "(string \<times> string) list \<Rightarrow> string \<Rightarrow> exn + string" where
  "lookup_kw [] name = Inl (KeyError name)"
| "lookup_kw ((k, v) # kws) name = (if k = name then Inr v else lookup_kw kws name)"

function py_format :: "(string \<times> string) list \<Rightarrow> string \<Rightarrow> exn + string" where
  "py_format kws [] = Inr []"
| "py_format kws (c # cs) =
     (if c = CHR ''{'' then
        (case cs of
           [] \<Rightarrow> Inl (ValueError ''Single '{' encountered in format string'')
         | d # ds \<Rightarrow>
             if d = CHR ''{'' then map_sum id ((#) CHR ''{'') (py_format kws ds)
             else if CHR ''}'' \<notin> set cs
             then Inl (ValueError ''expected '}' before end of string'')
             else (case lookup_kw kws (takeWhile (\<lambda>x. x \<noteq> CHR ''}'') cs) of
                     Inl e \<Rightarrow> Inl e
                   | Inr v \<Rightarrow> map_sum id ((@) v)
                               (py_format kws (tl (dropWhile (\<lambda>x. x \<noteq> CHR ''}'') cs)))))
      else if c = CHR ''}'' then
        (case cs of
           [] \<Rightarrow> Inl (ValueError ''Single '}' encountered in format string'')
         | d # ds \<Rightarrow>
             if d = CHR ''}'' then map_sum id ((#) CHR ''}'') (py_format kws ds)
             else Inl (ValueError ''Single '}' encountered in format string''))
      else map_sum id ((#) c) (py_format kws cs))"
  by pat_completeness auto
termination
  by (relation "measure (\<lambda>(kws, s). length s)")
     (auto simp: less_Suc_eq_le intro!: le_trans [OF diff_le_self] le_SucI length_dropWhile_le)

text \<open>\<open>str.capitalize()\<close> on ASCII letters: the first character upper case, the rest lower.\<close>

definition to_upper :: "char \<Rightarrow> char" where
  "to_upper c =
     (let n = (of_char c :: nat) in if 97 \<le> n \<and> n \<le> 122 then char_of (n - 32) else c)"

definition to_lower :: "char \<Rightarrow> char" where
  "to_lower c =
     (let n = (of_char c :: nat) in if 65 \<le> n \<and> n \<le> 90 then char_of (n + 32) else c)"

definition capitalize :: "string \<Rightarrow> string" where
  "capitalize s = (case s of [] \<Rightarrow> [] | c # cs \<Rightarrow> to_upper c # map to_lower cs)"

text \<open>\<open>d.get(key, default)\<close> on a dictionary.\<close>

definition dict_get :: "('k \<rightharpoonup> 'a) \<Rightarrow> 'k \<Rightarrow> 'a \<Rightarrow> 'a" where
  "dict_get d k dflt = (case d k of None \<Rightarrow> dflt | Some v \<Rightarrow> v)"

text \<open>An f-string field \<open>{x}\<close> where \<open>x\<close> is a string or \<open>None\<close>.\<close>

definition fstring_field :: "string option \<Rightarrow> string" where
  "fstring_field x = (case x of None \<Rightarrow> ''None'' | Some s \<Rightarrow> s)"

section \<open>The data model\<close>

text \<open>
  A \<open>rich\<close> panel with the keyword arguments this module passes; \<open>renderable\<close> is the
  source text of the \<open>Markdown\<close> body.
\<close>

record panel =
  renderable :: string
  title :: string
  subtitle :: string
  title_align :: string
  subtitle_align :: string
  border_style :: string
  box :: string
  width :: nat
  expand :: bool
  padding :: "nat \<times> nat"

text \<open>
  The objects the formatters return and \<open>format_run\<close> collects: a panel, a \<open>Group\<close> of
  panels, or \<open>None\<close>.
\<close>

datatype pyobj = PanelObj panel | GroupObj "panel list" | NoneObj

text \<open>
  The tool calls of a run step, by their \<open>type\<close>; any other type keeps its name.
  \<open>function_output\<close> is the attribute \<open>output\<close> of a function call, a string or
  \<open>None\<close>.
\<close>

record code_interpreter_output =
  logs :: string

record code_interpreter =
  input :: string
  outputs :: "code_interpreter_output list"

record function_call =
  name :: string
  arguments :: string
  function_output :: "string option"

datatype tool_call =
    CodeInterpreterToolCall code_interpreter
  | FunctionToolCall function_call
  | OtherToolCall string

text \<open>The status of a run step is one of the five literals of the API.\<close>

datatype run_step_status = InProgress | Cancelled | Failed | Completed | Expired

fun status_value :: "run_step_status \<Rightarrow> string" where
  "status_value InProgress = ''in_progress''"
| "status_value Cancelled = ''cancelled''"
| "status_value Failed = ''failed''"
| "status_value Completed = ''completed''"
| "status_value Expired = ''expired''"

record api_object =
  created_at :: int

text \<open>\<open>tool_calls\<close> is \<open>step.step_details.tool_calls\<close>.\<close>

record run_step = api_object +
  type :: string
  status :: run_step_status
  tool_calls :: "tool_call list"

datatype content_item =
    TextContent string
  | ImageFileContent string
  | OtherContent string

record message = api_object +
  role :: string
  content :: "content_item list"
  file_ids :: "string list"

record run =
  messages :: "message list"
  steps :: "run_step list"

section \<open>The environment\<close>

text \<open>
  What the module calls outside itself. \<open>json_loads\<close> is \<open>json.loads\<close> on a string:
  the parsed value, or the exception raised. That is \<open>json.JSONDecodeError\<close> for a string
  that is not a JSON document; CPython also raises a plain \<open>ValueError\<close>, which is not a
  \<open>JSONDecodeError\<close>, for an integer literal of more digits than its limit on the
  conversion of strings to integers (4300 by default). \<open>json_parser_parse\<close> is the
  \<open>parse\<close> method of \<open>partialjson.JSONParser\<close>, which may raise anything. \<open>str_of\<close>
  is \<open>str()\<close> of a parsed value. \<open>strftime fmt t\<close> is
  \<open>datetime.fromtimestamp(t).strftime(fmt)\<close> in the local time zone, for the timestamps
  of the API, which are in the range of the platform. \<open>retrieve_content\<close> is the download
  of a file's bytes through a new \<open>openai.Client()\<close>. \<open>gettempdir\<close> is the directory of
  temporary files.
\<close>

record 'v env =
  json_loads :: "string \<Rightarrow> exn + 'v"
  json_parser_parse :: "string \<Rightarrow> exn + 'v"
  str_of :: "'v \<Rightarrow> string"
  strftime :: "string \<Rightarrow> int \<Rightarrow> string"
  retrieve_content :: "string \<Rightarrow> exn + string"
  gettempdir :: string

text \<open>
  The file system: the files by path, and the random names the temp-file facility draws,
  \<open>candidate_names w n\<close> being the \<open>n\<close>-th, of which \<open>names_drawn\<close> are used up.
\<close>

record world =
  files :: "string \<rightharpoonup> string"
  candidate_names :: "nat \<Rightarrow> string"
  names_drawn :: nat

section \<open>The step formatter\<close>

subsection \<open>The tolerant argument decoder\<close>

text \<open>
  Lines 57 to 63: \<open>json.loads\<close>; its handler catches \<open>json.JSONDecodeError\<close> and calls
  the lenient parser, whose handler catches every \<open>Exception\<close> and takes the argument
  string itself. An exception of \<open>json.loads\<close> that is no \<open>JSONDecodeError\<close> has no
  handler. The value of \<open>args\<close> is a parsed value or the raw string.
\<close>

datatype 'v args = Parsed 'v | Raw string

definition decode_args :: "'v env \<Rightarrow> string \<Rightarrow> exn + 'v args" where
  "decode_args env s =
     (case json_loads env s of
        Inr v \<Rightarrow> Inr (Parsed v)
      | Inl e \<Rightarrow>
          if e = JSONDecodeError
          then (case json_parser_parse env s of
                  Inr v \<Rightarrow> Inr (Parsed v)
                | Inl e' \<Rightarrow> Inr (Raw s))
          else Inl e)"

text \<open>What \<open>str.format\<close> puts in place of \<open>{args}\<close>.\<close>

definition args_str :: "'v env \<Rightarrow> 'v args \<Rightarrow> string" where
  "args_str env a = (case a of Parsed v \<Rightarrow> str_of env v | Raw s \<Rightarrow> s)"

text \<open>
  The strings on which \<open>json.loads\<close> returns a value or raises \<open>json.JSONDecodeError\<close>,
  and nothing else.
\<close>

definition loads_regular :: "'v env \<Rightarrow> string \<Rightarrow> bool" where
  "loads_regular env s =
     (case json_loads env s of Inr v \<Rightarrow> True | Inl e \<Rightarrow> e = JSONDecodeError)"

subsection \<open>The templates\<close>

definition result_template :: string where
  "result_template = cleandoc
     ''\<newline>                        Result:\<newline>                        \<newline>                        ```python\<newline>                        {result}\<newline>                        ```\<newline>                        ''"

definition code_interpreter_template :: string where
  "code_interpreter_template = cleandoc
     ''\<newline>                    Assistant is running the code interpreter...\<newline>                    \<newline>                    ```python\<newline>                    {input}\<newline>                    ```\<newline>                    \<newline>                    {footer}\<newline>                    ''"

definition function_template :: string where
  "function_template = cleandoc
     ''\<newline>                    Assistant is using the `{function}` tool with arguments:\<newline>                    \<newline>                    ```python\<newline>                    {args}\<newline>                    ```\<newline>                    \<newline>                    {footer}\<newline>                    ''"

definition result_footer :: "string \<Rightarrow> exn + string" where
  "result_footer result = py_format [(''result'', result)] result_template"

definition code_interpreter_content :: "code_interpreter \<Rightarrow> exn + string" where
  "code_interpreter_content ci =
     (case (case outputs ci of
              [] \<Rightarrow> Inr []
            | out # _ \<Rightarrow> result_footer (logs out)) of
        Inl e \<Rightarrow> Inl e
      | Inr footer \<Rightarrow>
          py_format [(''input'', input ci), (''footer'', footer)] code_interpreter_template)"

definition function_content :: "'v env \<Rightarrow> function_call \<Rightarrow> exn + string" where
  "function_content env f =
     (case decode_args env (arguments f) of
        Inl e \<Rightarrow> Inl e
      | Inr args \<Rightarrow>
          (case (case function_output f of
                   None \<Rightarrow> Inr []
                 | Some out \<Rightarrow> if out = [] then Inr [] else result_footer out) of
             Inl e \<Rightarrow> Inl e
           | Inr footer \<Rightarrow>
               py_format
                 [(''function'', name f), (''args'', args_str env args), (''footer'', footer)]
                 function_template))"

subsection \<open>\<open>format_step\<close>\<close>

text \<open>
  The body of the loop up to the panel: the new value of the variable \<open>content\<close>, which a
  tool call of another type leaves as it was.
\<close>

definition tool_call_content :: "'v env \<Rightarrow> string \<Rightarrow> tool_call \<Rightarrow> exn + string" where
  "tool_call_content env text tc =
     (case tc of
        CodeInterpreterToolCall ci \<Rightarrow> code_interpreter_content ci
      | FunctionToolCall f \<Rightarrow> function_content env f
      | OtherToolCall t \<Rightarrow> Inr text)"

definition system_panel :: "string \<Rightarrow> string \<Rightarrow> panel" where
  "system_panel timestamp text =
     \<lparr>renderable = cleandoc text,
      title = ''System'',
      subtitle = ''[italic]'' @ timestamp @ ''[/]'',
      title_align = ''left'',
      subtitle_align = ''right'',
      border_style = ''gray74'',
      box = ''ROUNDED'',
      width = 100,
      expand = True,
      padding = (1, 2)\<rparr>"

text \<open>The loop over the tool calls, with the variables \<open>content\<close> and \<open>panels\<close>.\<close>

fun format_tool_calls ::
  "'v env \<Rightarrow> string \<Rightarrow> string \<Rightarrow> panel list \<Rightarrow> tool_call list \<Rightarrow> exn + panel list" where
  "format_tool_calls env timestamp text panels [] = Inr panels"
| "format_tool_calls env timestamp text panels (tc # tcs) =
     (case tool_call_content env text tc of
        Inl e \<Rightarrow> Inl e
      | Inr text' \<Rightarrow>
          format_tool_calls env timestamp text' (panels @ [system_panel timestamp text']) tcs)"

definition default_content :: "run_step \<Rightarrow> string" where
  "default_content step =
     ''Assistant is performing an action: '' @ type step @ '' - Status:'' @ '' ''
       @ status_value (status step)"

definition format_step :: "'v env \<Rightarrow> run_step \<Rightarrow> exn + pyobj" where
  "format_step env step =
     (let timestamp = strftime env ''%l:%M:%S %p'' (created_at step);
          text = default_content step
      in if type step = ''tool_calls''
         then (case format_tool_calls env timestamp text [] (tool_calls step) of
                 Inl e \<Rightarrow> Inl e
               | Inr panels \<Rightarrow> Inr (GroupObj panels))
         else if type step = ''message_creation'' then Inr (GroupObj [])
         else Inr (GroupObj []))"

section \<open>The message formatter\<close>

subsection \<open>\<open>download_temp_file\<close>\<close>

definition TMP_MAX :: nat where
  "TMP_MAX = 10000"

text \<open>\<open>os.path.join(dir, file)\<close> for a relative file name.\<close>

definition path_join :: "string \<Rightarrow> string \<Rightarrow> string" where
  "path_join dir file =
     (if dir = [] \<or> last dir = CHR ''/'' then dir @ file else dir @ ''/'' @ file)"

text \<open>
  The loop of \<open>tempfile._mkstemp_inner\<close>, behind \<open>NamedTemporaryFile\<close>: draw a random
  name, skip it when the file exists, create the file otherwise; after \<open>TMP_MAX\<close> names
  raise \<open>FileExistsError\<close>.
\<close>

function mkstemp_inner ::
  "nat \<Rightarrow> string \<Rightarrow> string \<Rightarrow> string \<Rightarrow> world \<Rightarrow> (exn + string) \<times> world" where
  "mkstemp_inner seq dir pre suf w =
     (if seq < TMP_MAX then
        (let nm = candidate_names w (names_drawn w);
             w1 = w\<lparr>names_drawn := names_drawn w + 1\<rparr>;
             file = path_join dir (pre @ nm @ suf)
         in if files w1 file \<noteq> None then mkstemp_inner (seq + 1) dir pre suf w1
            else (Inr file, w1\<lparr>files := (files w1)(file \<mapsto> [])\<rparr>))
      else (Inl FileExistsError, w))"
  by pat_completeness auto
termination
  by (relation "measure (\<lambda>(seq, dir, pre, suf, w). TMP_MAX - seq)") auto

declare mkstemp_inner.simps [simp del]

text \<open>
  The parameter \<open>sfx\<close> is \<open>suffix\<close>, a string or its default \<open>None\<close>; the temp file
  gets the suffix \<open>f"{suffix}"\<close>. The content is retrieved first, then the file is created
  and written.
\<close>

definition download_temp_file ::
  "'v env \<Rightarrow> string \<Rightarrow> string option \<Rightarrow> world \<Rightarrow> (exn + string) \<times> world" where
  "download_temp_file env file_id sfx w =
     (case retrieve_content env file_id of
        Inl e \<Rightarrow> (Inl e, w)
      | Inr bytes \<Rightarrow>
          (case mkstemp_inner 0 (gettempdir env) ''tmp'' (fstring_field sfx) w of
             (Inl e, w1) \<Rightarrow> (Inl e, w1)
           | (Inr temp_file_path, w1) \<Rightarrow>
               (Inr temp_file_path, w1\<lparr>files := (files w1)(temp_file_path \<mapsto> bytes)\<rparr>)))"

subsection \<open>\<open>format_message\<close>\<close>

definition role_colors :: "string \<rightharpoonup> string" where
  "role_colors = [''user'' \<mapsto> ''green'', ''assistant'' \<mapsto> ''blue'']"

text \<open>The loop over \<open>message.content\<close>, with the variable \<open>content\<close>.\<close>

fun format_content ::
  "'v env \<Rightarrow> string \<Rightarrow> content_item list \<Rightarrow> world \<Rightarrow> (exn + string) \<times> world" where
  "format_content env text [] w = (Inr text, w)"
| "format_content env text (TextContent v # items) w =
     format_content env (text @ v @ ''\<newline>\<newline>'') items w"
| "format_content env text (ImageFileContent file_id # items) w =
     (case download_temp_file env file_id (Some ''.png'') w of
        (Inl e, w1) \<Rightarrow> (Inl e, w1)
      | (Inr local_file_path, w1) \<Rightarrow>
          (let file_url = ''file://'' @ local_file_path in
           format_content env
             (text @ ''[bold]Attachment[/bold]:'' @ '' [blue][link='' @ file_url @ '']''
                @ local_file_path @ ''[/link][/blue]\<newline>\<newline>'')
             items w1))"
| "format_content env text (OtherContent t # items) w = format_content env text items w"

definition format_message :: "'v env \<Rightarrow> message \<Rightarrow> world \<Rightarrow> (exn + panel) \<times> world" where
  "format_message env m w =
     (let color = dict_get role_colors (role m) ''red'';
          timestamp = lstrip_chars ''0'' (strftime env ''%I:%M:%S %p'' (created_at m))
      in case format_content env [] (content m) w of
           (Inl e, w1) \<Rightarrow> (Inl e, w1)
         | (Inr text, w1) \<Rightarrow>
             (let text' = foldl (\<lambda>acc file_id. acc @ ''Attached file: '' @ file_id @ ''\<newline>'')
                            text (file_ids m)
              in (Inr \<lparr>renderable = cleandoc text',
                       title = ''[bold]'' @ capitalize (role m) @ ''[/]'',
                       subtitle = ''[italic]'' @ timestamp @ ''[/]'',
                       title_align = ''left'',
                       subtitle_align = ''right'',
                       border_style = color,
                       box = ''ROUNDED'',
                       width = 100,
                       expand = True,
                       padding = (1, 2)\<rparr>, w1)))"

section \<open>The run merger\<close>

text \<open>The two list comprehensions of \<open>format_run\<close>, evaluated one after the other.\<close>

fun format_messages ::
  "'v env \<Rightarrow> message list \<Rightarrow> world \<Rightarrow> (exn + (pyobj \<times> int) list) \<times> world" where
  "format_messages env [] w = (Inr [], w)"
| "format_messages env (m # ms) w =
     (case format_message env m w of
        (Inl e, w1) \<Rightarrow> (Inl e, w1)
      | (Inr p, w1) \<Rightarrow>
          (case format_messages env ms w1 of
             (Inl e, w2) \<Rightarrow> (Inl e, w2)
           | (Inr ps, w2) \<Rightarrow> (Inr ((PanelObj p, created_at m) # ps), w2)))"

fun format_steps :: "'v env \<Rightarrow> run_step list \<Rightarrow> exn + (pyobj \<times> int) list" where
  "format_steps env [] = Inr []"
| "format_steps env (s # ss) =
     (case format_step env s of
        Inl e \<Rightarrow> Inl e
      | Inr g \<Rightarrow>
          (case format_steps env ss of
             Inl e \<Rightarrow> Inl e
           | Inr gs \<Rightarrow> Inr ((g, created_at s) # gs)))"

text \<open>\<open>sorted(..., key=lambda x: x[1])\<close> is stable, as \<open>sort_key\<close> is.\<close>

definition format_run :: "'v env \<Rightarrow> run \<Rightarrow> world \<Rightarrow> (exn + pyobj list) \<times> world" where
  "format_run env r w =
     (case format_messages env (messages r) w of
        (Inl e, w1) \<Rightarrow> (Inl e, w1)
      | (Inr ms, w1) \<Rightarrow>
          (case format_steps env (steps r) of
             Inl e \<Rightarrow> (Inl e, w1)
           | Inr ss \<Rightarrow>
               (let sorted_objects = sort_key snd (ms @ ss)
                in (Inr (map fst (filter (\<lambda>x. fst x \<noteq> NoneObj) sorted_objects)), w1))))"

section \<open>Example objects\<close>

text \<open>
  A small environment for evaluating the formatters. A parsed JSON value is represented
  by the text \<open>str()\<close> gives it. The strict parser raises \<open>ValueError\<close> on a number of
  more than 4300 digits, as CPython does, knows one document and rejects every other
  string; the lenient parser completes one truncated document and raises on any other
  string; one file can be downloaded.
\<close>

definition isdigit :: "char \<Rightarrow> bool" where
  "isdigit c \<longleftrightarrow> c \<in> set ''0123456789''"

definition example_env :: "string env" where
  "example_env =
     \<lparr>json_loads = (\<lambda>s.
        if 4300 < length s \<and> list_all isdigit s
        then Inl (ValueError ''Exceeds the limit (4300 digits) for integer string conversion'')
        else if s = ''[true]'' then Inr ''[True]''
        else Inl JSONDecodeError),
      json_parser_parse = (\<lambda>s. if s = ''[true'' then Inr ''[True]'' else Inl JSONDecodeError),
      str_of = (\<lambda>v. v),
      strftime = (\<lambda>fmt t. if fmt = ''%I:%M:%S %p'' then ''01:00:02 AM'' else '' 1:00:02 AM''),
      retrieve_content = (\<lambda>file_id. if file_id = ''file-1'' then Inr ''PNG''
                           else Inl (APIError ''No such File object'')),
      gettempdir = ''/tmp''\<rparr>"

definition example_world :: world where
  "example_world = \<lparr>files = Map.empty, candidate_names = (\<lambda>n. ''k3x9_q2w''), names_drawn = 0\<rparr>"

definition creation_step :: run_step where
  "creation_step =
     \<lparr>created_at = 2, type = ''message_creation'', status = Completed, tool_calls = []\<rparr>"

definition long_number :: string where
  "long_number = replicate 4301 CHR ''9''"

definition long_number_step :: run_step where
  "long_number_step =
     \<lparr>created_at = 2, type = ''tool_calls'', status = InProgress,
      tool_calls =
        [FunctionToolCall \<lparr>name = ''store'', arguments = long_number, function_output = None\<rparr>]\<rparr>"









definition moderator_message :: message where
  "moderator_message =
     \<lparr>created_at = 1, role = ''moderator'', content = [TextContent ''hi''], file_ids = []\<rparr>"

definition image_message :: message where
  "image_message =
     \<lparr>created_at = 3, role = ''assistant'',
      content = [TextContent ''Here is the plot.'', ImageFileContent ''file-2''],
      file_ids = []\<rparr>"

definition user_message :: message where
  "user_message =
     \<lparr>created_at = 1, role = ''user'', content = [TextContent ''hi''], file_ids = []\<rparr>"

definition user_panel :: panel where
  "user_panel =
     \<lparr>renderable = ''hi'',
      title = ''[bold]User[/]'',
      subtitle = ''[italic]1:00:02 AM[/]'',
      title_align = ''left'',
      subtitle_align = ''right'',
      border_style = ''green'',
      box = ''ROUNDED'',
      width = 100,
      expand = True,
      padding = (1, 2)\<rparr>"

definition example_run :: run where
  "example_run = \<lparr>messages = [user_message], steps = [creation_step]\<rparr>"

section \<open>Facts about the library functions\<close>










section \<open>Facts about the templates\<close>









lemma decode_args_irregular:
  "json_loads env s = Inl e \<Longrightarrow> e \<noteq> JSONDecodeError \<Longrightarrow> decode_args env s = Inl e"
  by (simp add: decode_args_def)



section \<open>Facts about the loop of \<open>format_step\<close>\<close>







section \<open>Facts about the message formatter\<close>

text \<open>
  The loop over the content of a message stops at the first error, and every error it
  returns was raised by \<open>download_temp_file\<close> for an image segment.
\<close>

lemma format_content_append:
  "format_content env c0 (pre @ rest) w =
     (case format_content env c0 pre w of
        (Inl e, w1) \<Rightarrow> (Inl e, w1)
      | (Inr c1, w1) \<Rightarrow> format_content env c1 rest w1)"
  by (induction env c0 pre w rule: format_content.induct)
     (auto split: prod.splits sum.splits)

lemma download_temp_file_retrieve_error:
  "retrieve_content env file_id = Inl e \<Longrightarrow> download_temp_file env file_id sfx w = (Inl e, w)"
  by (simp add: download_temp_file_def)

lemma format_content_error_source:
  "format_content env c0 items w = (Inl e, w') \<Longrightarrow>
   \<exists>file_id w0. ImageFileContent file_id \<in> set items
      \<and> fst (download_temp_file env file_id (Some ''.png'') w0) = Inl e"
proof (induction env c0 items w rule: format_content.induct)
  case (3 env c0 file_id items w)
  show ?case
  proof (cases "download_temp_file env file_id (Some ''.png'') w")
    case (Pair r w1)
    show ?thesis
    proof (cases r)
      case (Inl e1)
      with Pair "3.prems" have "e1 = e" by simp
      with Pair Inl have "fst (download_temp_file env file_id (Some ''.png'') w) = Inl e"
        by simp
      then show ?thesis by auto
    next
      case (Inr path)
      with Pair "3.prems" "3.IH" [of "Inr path" w1 path "''file://'' @ path"]
      show ?thesis by auto
    qed
  qed
qed auto

lemma format_content_raises:
  "ImageFileContent file_id \<in> set items \<Longrightarrow> retrieve_content env file_id = Inl e \<Longrightarrow>
   \<exists>e' w'. format_content env c0 items w = (Inl e', w')"
proof (induction env c0 items w rule: format_content.induct)
  case (3 env c0 fid items w)
  show ?case
  proof (cases "download_temp_file env fid (Some ''.png'') w")
    case (Pair r w1)
    show ?thesis
    proof (cases r)
      case (Inl e1)
      with Pair show ?thesis by simp
    next
      case (Inr path)
      with "3.prems" have "fid \<noteq> file_id"
        using Pair download_temp_file_retrieve_error [of env file_id e "Some ''.png''" w] by auto
      with "3.prems" have "ImageFileContent file_id \<in> set items" by simp
      with Pair Inr "3.prems" "3.IH" [of "Inr path" w1 path "''file://'' @ path"]
      show ?thesis by simp
    qed
  qed
qed auto

text \<open>
  The temp-file facility returns the first candidate path that is free, with the prefix
  and the suffix it was given.
\<close>

lemma mkstemp_inner_free:
  "seq + k < TMP_MAX \<Longrightarrow>
   files w (path_join dir (pre @ candidate_names w (names_drawn w + k) @ suf)) = None \<Longrightarrow>
   \<exists>nm w1. mkstemp_inner seq dir pre suf w = (Inr (path_join dir (pre @ nm @ suf)), w1)
      \<and> files w (path_join dir (pre @ nm @ suf)) = None
      \<and> files w1 = (files w)(path_join dir (pre @ nm @ suf) \<mapsto> [])"
proof (induction k arbitrary: seq w)
  case 0
  then show ?case
    by (subst mkstemp_inner.simps) (auto simp: Let_def)
next
  case (Suc k)
  let ?w1 = "w\<lparr>names_drawn := names_drawn w + 1\<rparr>"
  let ?file = "path_join dir (pre @ candidate_names w (names_drawn w) @ suf)"
  show ?case
  proof (cases "files w ?file = None")
    case True
    with Suc.prems show ?thesis
      by (subst mkstemp_inner.simps) (auto simp: Let_def)
  next
    case False
    from Suc.prems have "Suc seq + k < TMP_MAX"
      and "files ?w1 (path_join dir (pre @ candidate_names ?w1 (names_drawn ?w1 + k) @ suf)) = None"
      by simp_all
    from Suc.IH [OF this]
    obtain nm w2 where "mkstemp_inner (Suc seq) dir pre suf ?w1
                          = (Inr (path_join dir (pre @ nm @ suf)), w2)"
      and "files ?w1 (path_join dir (pre @ nm @ suf)) = None"
      and "files w2 = (files ?w1)(path_join dir (pre @ nm @ suf) \<mapsto> [])"
      by blast
    with False Suc.prems show ?thesis
      by (subst mkstemp_inner.simps) (auto simp: Let_def)
  qed
qed

lemma path_join_suffix: "\<exists>stem. path_join dir (pre @ nm @ suf) = stem @ suf"
  by (simp add: path_join_def)

section \<open>Facts about the run merger\<close>

text \<open>
  Facts about the two comprehensions: no entry of either list is \<open>None\<close>, so the filter
  of \<open>format_run\<close> keeps every entry, and the result has one entry for each message and
  one for each step, in the stable order of the timestamps.
\<close>

lemma format_messages_entries:
  "format_messages env ms w = (Inr ps, w') \<Longrightarrow>
   length ps = length ms \<and> (\<forall>x \<in> set ps. fst x \<noteq> NoneObj)"
proof (induction ms arbitrary: w ps w')
  case Nil
  then show ?case by simp
next
  case (Cons m ms)
  from Cons.prems obtain p w1 qs where "format_message env m w = (Inr p, w1)"
    and rest: "format_messages env ms w1 = (Inr qs, w')"
    and ps: "ps = (PanelObj p, created_at m) # qs"
    by (auto split: prod.splits sum.splits)
  with Cons.IH [OF rest] show ?case by simp
qed

lemma format_step_not_None: "format_step env s = Inr g \<Longrightarrow> g \<noteq> NoneObj"
  by (auto simp: format_step_def Let_def split: if_splits sum.splits)

lemma format_steps_entries:
  "format_steps env ss = Inr gs \<Longrightarrow>
   length gs = length ss \<and> (\<forall>x \<in> set gs. fst x \<noteq> NoneObj)"
proof (induction ss arbitrary: gs)
  case Nil
  then show ?case by simp
next
  case (Cons s ss)
  from Cons.prems obtain g hs where g: "format_step env s = Inr g"
    and rest: "format_steps env ss = Inr hs"
    and gs: "gs = (g, created_at s) # hs"
    by (auto split: sum.splits)
  with Cons.IH [OF rest] format_step_not_None [OF g] show ?case by simp
qed

lemma format_run_sorted_entries:
  assumes "format_messages env (messages r) w = (Inr ms, w1)"
    and "format_steps env (steps r) = Inr ss"
  shows "format_run env r w = (Inr (map fst (sort_key snd (ms @ ss))), w1)"
proof -
  from format_messages_entries [OF assms(1)] format_steps_entries [OF assms(2)]
  have "\<forall>x \<in> set (sort_key snd (ms @ ss)). fst x \<noteq> NoneObj"
    by auto
  then have "filter (\<lambda>x. fst x \<noteq> NoneObj) (sort_key snd (ms @ ss)) = sort_key snd (ms @ ss)"
    by (simp only: filter_True)
  with assms show ?thesis
    by (simp add: format_run_def)
qed

lemma format_run_drops_nothing:
  assumes "format_run env r w = (Inr objs, w')"
  shows "length objs = length (messages r) + length (steps r)"
proof -
  from assms obtain ms w1 ss where ms: "format_messages env (messages r) w = (Inr ms, w1)"
    and ss: "format_steps env (steps r) = Inr ss"
    by (auto simp: format_run_def split: prod.splits sum.splits)
  from format_run_sorted_entries [OF ms ss] assms
  have "objs = map fst (sort_key snd (ms @ ss))"
    by simp
  with format_messages_entries [OF ms] format_steps_entries [OF ss] show ?thesis
    by simp
qed

section \<open>The claims\<close>

subsection \<open>The run merger\<close>

text \<open>
  C1. The merger pairs every message and every step with its timestamp and sorts the
  pairs, but it drops nothing: the filter keeps what is not \<open>None\<close>, and \<open>format_step\<close>
  returns a group, never \<open>None\<close>. For a run of one user message and one later step of
  type \<open>message_creation\<close>, which contributes no panel, the result has two entries, the
  panel of the message and the empty group of the step.
\<close>

theorem format_run_keeps_empty_group:
  "format_run example_env example_run example_world
     = (Inr [PanelObj user_panel, GroupObj []], example_world)"
proof -
  have body: "cleandoc ''hi\<newline>\<newline>'' = ''hi''"
    and head: "capitalize ''user'' = ''User''"
    by code_simp+
  have "format_message example_env user_message example_world = (Inr user_panel, example_world)"
    by (simp add: format_message_def user_message_def user_panel_def example_env_def Let_def
        dict_get_def role_colors_def lstrip_chars_def body head)
  moreover have "format_step example_env creation_step = Inr (GroupObj [])"
    by (simp add: format_step_def creation_step_def)
  ultimately show ?thesis
    by (simp add: format_run_def example_run_def user_message_def creation_step_def)
qed

subsection \<open>The tolerant argument decoder\<close>



text \<open>
  What the decoder does on a string on which \<open>json.loads\<close> returns or raises
  \<open>JSONDecodeError\<close>: the value of the strict parse when that succeeds; when it fails, the
  value of the lenient parse when that succeeds; and when the lenient parse raises,
  whatever it raises, the argument string itself, unchanged.
\<close>

lemma decode_args_fallback:
  "(\<forall>v. json_loads env s = Inr v \<longrightarrow> decode_args env s = Inr (Parsed v))
   \<and> (\<forall>v. json_loads env s = Inl JSONDecodeError \<and> json_parser_parse env s = Inr v
          \<longrightarrow> decode_args env s = Inr (Parsed v))
   \<and> (\<forall>e. json_loads env s = Inl JSONDecodeError \<and> json_parser_parse env s = Inl e
          \<longrightarrow> decode_args env s = Inr (Raw s))
   \<and> (loads_regular env s
          \<longrightarrow> (\<exists>v. decode_args env s = Inr (Parsed v)) \<or> decode_args env s = Inr (Raw s))"
  by (auto simp: decode_args_def loads_regular_def split: sum.splits)

lemma decode_args_fallback_examples:
  "decode_args example_env ''[true]'' = Inr (Parsed ''[True]'')
   \<and> decode_args example_env ''[true'' = Inr (Parsed ''[True]'')
   \<and> decode_args example_env ''not json at all {{{'' = Inr (Raw ''not json at all {{{'')"
  by (simp add: decode_args_def example_env_def)

text \<open>
  C3. The decoder does let an exception escape. The handler of the strict parse catches
  \<open>JSONDecodeError\<close> only, while \<open>json.loads\<close> raises a plain \<open>ValueError\<close> on a number of
  more than 4300 digits. On the argument string of 4301 digits \<open>9\<close> the lenient parse is
  not tried and the raw string is not returned: the \<open>ValueError\<close> leaves the decoder and
  \<open>format_step\<close>.
\<close>

theorem decode_args_long_number_raises:
  "json_loads example_env long_number
     = Inl (ValueError ''Exceeds the limit (4300 digits) for integer string conversion'')
   \<and> decode_args example_env long_number
     = Inl (ValueError ''Exceeds the limit (4300 digits) for integer string conversion'')
   \<and> format_step example_env long_number_step
     = Inl (ValueError ''Exceeds the limit (4300 digits) for integer string conversion'')"
proof -
  have raised: "json_loads example_env long_number
     = Inl (ValueError ''Exceeds the limit (4300 digits) for integer string conversion'')"
    by (simp add: example_env_def long_number_def list_all_iff isdigit_def)
  then have escaped: "decode_args example_env long_number
     = Inl (ValueError ''Exceeds the limit (4300 digits) for integer string conversion'')"
    by (simp add: decode_args_def)
  then have "format_step example_env long_number_step
     = Inl (ValueError ''Exceeds the limit (4300 digits) for integer string conversion'')"
    by (simp add: format_step_def long_number_step_def tool_call_content_def
        function_content_def)
  with raised escaped show ?thesis by simp
qed

subsection \<open>The step formatter\<close>



text \<open>
  C5. For a run step of type \<open>message_creation\<close>, \<open>format_step\<close> returns the group of no
  panels.
\<close>

theorem format_step_message_creation:
  "type step = ''message_creation'' \<Longrightarrow> format_step env step = Inr (GroupObj [])"
  by (simp add: format_step_def)

theorem format_step_message_creation_witness:
  "type creation_step = ''message_creation''
   \<and> format_step example_env creation_step = Inr (GroupObj [])"
proof -
  have h: "type creation_step = ''message_creation''"
    by (simp add: creation_step_def)
  from h format_step_message_creation [OF h] show ?thesis by simp
qed




subsection \<open>The message formatter\<close>

text \<open>
  C7. Whenever \<open>format_message\<close> produces a panel, its border style is \<open>green\<close> for the
  role \<open>user\<close>, \<open>blue\<close> for the role \<open>assistant\<close>, and \<open>red\<close> for every other role.
\<close>

theorem format_message_border_style:
  assumes "format_message env m w = (Inr p, w')"
  shows "border_style p =
           (if role m = ''user'' then ''green''
            else if role m = ''assistant'' then ''blue''
            else ''red'')"
proof -
  from assms have "border_style p = dict_get role_colors (role m) ''red''"
    by (auto simp: format_message_def Let_def split: prod.splits sum.splits)
  then show ?thesis
    by (simp add: dict_get_def role_colors_def)
qed

theorem format_message_border_style_witness:
  "\<exists>p. format_message example_env moderator_message example_world = (Inr p, example_world)
       \<and> role moderator_message = ''moderator''
       \<and> border_style p = ''red''"
proof -
  have "\<exists>p. format_message example_env moderator_message example_world = (Inr p, example_world)"
    by (simp add: format_message_def moderator_message_def Let_def)
  then obtain p where
    h: "format_message example_env moderator_message example_world = (Inr p, example_world)"
    by blast
  have r: "role moderator_message = ''moderator''"
    by (simp add: moderator_message_def)
  from format_message_border_style [OF h] r have "border_style p = ''red''"
    by simp
  with h r show ?thesis by blast
qed

text \<open>
  C8. When the download raises for an image segment of a message, \<open>format_message\<close>
  returns no panel but an error, and that error is one that \<open>download_temp_file\<close> raised
  for an image segment of the message: nothing catches it. When the segments before the
  image were formatted without error, the error is the very error of the download, and
  the file system is as those segments left it.
\<close>

theorem format_message_download_error:
  assumes "ImageFileContent file_id \<in> set (content m)"
    and "retrieve_content env file_id = Inl e"
  shows "(\<exists>e' w'. format_message env m w = (Inl e', w')
            \<and> (\<exists>fid w0. ImageFileContent fid \<in> set (content m)
                  \<and> fst (download_temp_file env fid (Some ''.png'') w0) = Inl e'))
         \<and> (\<forall>pre post c1 w1.
               content m = pre @ ImageFileContent file_id # post
               \<and> format_content env [] pre w = (Inr c1, w1)
               \<longrightarrow> format_message env m w = (Inl e, w1))"
proof (intro conjI allI impI)
  from format_content_raises [OF assms, of "[]" w]
  obtain e' w' where raised: "format_content env [] (content m) w = (Inl e', w')"
    by blast
  then have "format_message env m w = (Inl e', w')"
    by (simp add: format_message_def Let_def)
  with format_content_error_source [OF raised]
  show "\<exists>e' w'. format_message env m w = (Inl e', w')
            \<and> (\<exists>fid w0. ImageFileContent fid \<in> set (content m)
                  \<and> fst (download_temp_file env fid (Some ''.png'') w0) = Inl e')"
    by blast
next
  fix pre post c1 w1
  assume split: "content m = pre @ ImageFileContent file_id # post
                 \<and> format_content env [] pre w = (Inr c1, w1)"
  then have "format_content env [] (content m) w = (Inl e, w1)"
    using assms(2)
    by (simp add: format_content_append download_temp_file_retrieve_error)
  then show "format_message env m w = (Inl e, w1)"
    by (simp add: format_message_def Let_def)
qed

theorem format_message_download_error_witness:
  "ImageFileContent ''file-2'' \<in> set (content image_message)
   \<and> retrieve_content example_env ''file-2'' = Inl (APIError ''No such File object'')
   \<and> format_message example_env image_message example_world
       = (Inl (APIError ''No such File object''), example_world)"
proof -
  have seg: "ImageFileContent ''file-2'' \<in> set (content image_message)"
    and err: "retrieve_content example_env ''file-2'' = Inl (APIError ''No such File object'')"
    by (simp_all add: image_message_def example_env_def)
  have parts: "content image_message
                 = [TextContent ''Here is the plot.''] @ ImageFileContent ''file-2'' # []
               \<and> format_content example_env [] [TextContent ''Here is the plot.''] example_world
                   = (Inr ''Here is the plot.\<newline>\<newline>'', example_world)"
    by (simp add: image_message_def)
  from format_message_download_error [OF seg err, of example_world] parts
  have "format_message example_env image_message example_world
          = (Inl (APIError ''No such File object''), example_world)"
    by blast
  with seg err show ?thesis by simp
qed

subsection \<open>Tool calls of other types\<close>



subsection \<open>The default suffix of the temp file\<close>

text \<open>
  C10. Called without a suffix, \<open>download_temp_file\<close> gives the temp file the suffix
  \<open>f"{None}"\<close>: when the download succeeds and one of the next \<open>TMP_MAX\<close> candidate
  names is free, it returns a path that ends with the four characters \<open>None\<close>, of a
  file that did not exist before and now holds the downloaded bytes.
\<close>

theorem download_temp_file_default_suffix:
  assumes "retrieve_content env file_id = Inr bytes"
    and "k < TMP_MAX"
    and "files w (path_join (gettempdir env)
                   (''tmp'' @ candidate_names w (names_drawn w + k) @ fstring_field None)) = None"
  shows "\<exists>stem w'. download_temp_file env file_id None w = (Inr (stem @ ''None''), w')
           \<and> files w (stem @ ''None'') = None
           \<and> files w' (stem @ ''None'') = Some bytes"
proof -
  from assms(2) have "0 + k < TMP_MAX" by simp
  from mkstemp_inner_free [OF this assms(3)]
  obtain nm w1 where
    made: "mkstemp_inner 0 (gettempdir env) ''tmp'' (fstring_field None) w
             = (Inr (path_join (gettempdir env) (''tmp'' @ nm @ fstring_field None)), w1)"
    and fresh: "files w (path_join (gettempdir env) (''tmp'' @ nm @ fstring_field None)) = None"
    by blast
  obtain stem where stem:
    "path_join (gettempdir env) (''tmp'' @ nm @ fstring_field None) = stem @ ''None''"
    using path_join_suffix [of "gettempdir env" "''tmp''" nm "fstring_field None"]
    by (auto simp: fstring_field_def)
  from assms(1) made stem have
    "download_temp_file env file_id None w
       = (Inr (stem @ ''None''), w1\<lparr>files := (files w1)(stem @ ''None'' \<mapsto> bytes)\<rparr>)"
    by (simp add: download_temp_file_def)
  with fresh stem show ?thesis by auto
qed

theorem download_temp_file_default_suffix_witness:
  "retrieve_content example_env ''file-1'' = Inr ''PNG''
   \<and> (0::nat) < TMP_MAX
   \<and> files example_world ''/tmp/tmpk3x9_q2wNone'' = None
   \<and> fst (download_temp_file example_env ''file-1'' None example_world)
       = Inr ''/tmp/tmpk3x9_q2wNone''
   \<and> files (snd (download_temp_file example_env ''file-1'' None example_world))
       ''/tmp/tmpk3x9_q2wNone'' = Some ''PNG''"
proof -
  have got: "retrieve_content example_env ''file-1'' = Inr ''PNG''"
    and pos: "(0::nat) < TMP_MAX"
    and free: "files example_world
                 (path_join (gettempdir example_env)
                    (''tmp'' @ candidate_names example_world (names_drawn example_world + 0)
                       @ fstring_field None)) = None"
    and none: "files example_world ''/tmp/tmpk3x9_q2wNone'' = None"
    by (simp_all add: example_env_def example_world_def TMP_MAX_def)
  have made: "mkstemp_inner 0 ''/tmp'' ''tmp'' ''None'' example_world
                = (Inr ''/tmp/tmpk3x9_q2wNone'',
                   example_world\<lparr>names_drawn := 1,
                     files := (files example_world)(''/tmp/tmpk3x9_q2wNone'' \<mapsto> [])\<rparr>)"
    by (subst mkstemp_inner.simps)
       (simp add: example_world_def TMP_MAX_def path_join_def Let_def)
  have run: "download_temp_file example_env ''file-1'' None example_world
               = (Inr ''/tmp/tmpk3x9_q2wNone'',
                  example_world\<lparr>names_drawn := 1,
                    files := (files example_world)(''/tmp/tmpk3x9_q2wNone'' \<mapsto> ''PNG'')\<rparr>)"
    using made by (simp add: download_temp_file_def example_env_def fstring_field_def)
  from download_temp_file_default_suffix [OF got pos free] run got pos none
  show ?thesis by simp
qed

end
